theory Spec2Isabelle
  imports Complex_Main
begin

section \<open>Data model\<close>

text \<open>
  The shapes the dashboard passes around. Coordinates are JavaScript numbers; the code
  never computes with them (it only copies and reorders them), so they are modelled
  as \<open>real\<close>. A \<open>LatLng\<close> is the two-element array \<open>[lat, lon]\<close> handed to the map,
  a \<open>RoutePath\<close> the array of those held in the \<open>routePath\<close> state of MapComponent.
  The location lookup is the plain object built by \<open>createLocationLookup\<close>: a key that
  is absent reads as \<open>undefined\<close>, which is \<open>None\<close> here (a Location object is always
  truthy, so \<open>filter(Boolean)\<close> and \<open>!loc\<close> test exactly for \<open>None\<close>). A
  \<open>LocationLookup\<close> holds the keys the object has of its own; what a bracket read
  returns for a name that every JavaScript object inherits is \<open>readLookup\<close> below.
\<close>

record Location =
  lat :: real
  lon :: real

record Stop =
  location_id :: string
  type :: string

text \<open>
  An order as the order endpoint returns it. \<open>order_id\<close> holds \<open>String(order.id)\<close>, the
  only form in which the code uses the id. The pickup window may be missing (line 203
  tests for it); \<open>window_end\<close> is its \<open>end\<close> field, which the order list shows as the
  minutes that remain.
\<close>

record PickupWindow =
  window_start :: int
  window_end :: int

record Order =
  order_id :: string
  details :: string
  ngo_name :: string
  pickup_location :: Location
  delivery_location :: Location
  pickup_window :: "PickupWindow option"

record Vehicle =
  vehicle_id :: string
  capacity :: int
  start_location :: Location

type_synonym LatLng = "real \<times> real"
type_synonym RoutePath = "LatLng list"
type_synonym LocationLookup = "string \<rightharpoonup> Location"

section \<open>MapComponent: the route effect\<close>

text \<open>
  What \<open>axios.get(url)\<close> can deliver to \<open>fetchRoadShape\<close>. The promise is rejected on a
  network error and on a status outside 2xx. Otherwise \<open>response.data\<close> is the parsed
  body; each place where the code reads a property of it is a field that may be
  missing: \<open>None\<close> for \<open>data\<close> is a \<open>null\<close> body, \<open>None\<close> for \<open>routes\<close> an
  absent (falsy) route list, \<open>None\<close> for \<open>geometry\<close> a route without geometry and
  \<open>None\<close> for \<open>coordinates\<close> a geometry without a coordinate array. A coordinate is
  the GeoJSON position \<open>[lon, lat]\<close>, a pair with \<open>coord[0]\<close> first.
\<close>

datatype Geometry = Geometry (coordinates: "(real \<times> real) list option")
datatype OsrmRoute = OsrmRoute (geometry: "Geometry option")
datatype OsrmData = OsrmData (routes: "OsrmRoute list option")
datatype AxiosResult = Rejected | Resolved "OsrmData option"

datatype js_error = AxiosError | TypeError

text \<open>
  Lines 84 to 87: every stop is mapped through the lookup, the misses are filtered out,
  and the depot entry, when the lookup has one, is put in front with \<open>unshift\<close>. The
  lookup is read at its own keys: for a stop whose id is a name that every object
  inherits (see \<open>readLookup\<close>) the code keeps one more waypoint, without coordinates,
  so it never has fewer waypoints than this function returns.
\<close>

definition extractWaypoints :: "Stop list \<Rightarrow> LocationLookup \<Rightarrow> Location list" where
  "extractWaypoints stops locations =
     (let waypoints = List.map_filter (\<lambda>point. locations (location_id point)) stops
      in case locations ''DEPOT'' of
           Some depot \<Rightarrow> depot # waypoints
         | None \<Rightarrow> waypoints)"

text \<open>
  The body of the \<open>try\<close> block of \<open>fetchRoadShape\<close> (lines 93 to 100). \<open>Inl\<close> is a
  thrown error, which the \<open>catch\<close> receives; \<open>Inr None\<close> is a normal end without a call
  of \<open>setRoutePath\<close>; \<open>Inr (Some p)\<close> is \<open>setRoutePath(p)\<close>.
\<close>

fun tryRoadShape :: "AxiosResult \<Rightarrow> js_error + RoutePath option" where
  "tryRoadShape Rejected = Inl AxiosError"
| "tryRoadShape (Resolved None) = Inl TypeError"
| "tryRoadShape (Resolved (Some d)) =
     (case routes d of
        None \<Rightarrow> Inr None
      | Some [] \<Rightarrow> Inr None
      | Some (r # _) \<Rightarrow>
          (case geometry r of
             None \<Rightarrow> Inl TypeError
           | Some g \<Rightarrow>
               (case coordinates g of
                  None \<Rightarrow> Inl TypeError
                | Some geoJsonCoords \<Rightarrow>
                    Inr (Some (map (\<lambda>coord. (snd coord, fst coord)) geoJsonCoords)))))"

text \<open>
  \<open>fetchRoadShape\<close> as a whole: the \<open>routePath\<close> state after the request has ended
  with the given result, from the state before. The \<open>catch\<close> block sets the straight
  lines between the waypoints.
\<close>

definition fetchRoadShape :: "Location list \<Rightarrow> AxiosResult \<Rightarrow> RoutePath \<Rightarrow> RoutePath" where
  "fetchRoadShape waypoints result routePath =
     (case tryRoadShape result of
        Inl _ \<Rightarrow> map (\<lambda>w. (lat w, lon w)) waypoints
      | Inr None \<Rightarrow> routePath
      | Inr (Some path) \<Rightarrow> path)"

text \<open>
  The synchronous part of the effect (lines 78 to 89 and the call in line 106): the
  \<open>routePath\<close> state it leaves, and the waypoints of the request it has started, if it
  has started one. The \<open>route\<close> prop is \<open>null\<close> (\<open>None\<close>) until the optimizer has answered.
\<close>

definition routeEffect ::
  "Stop list option \<Rightarrow> LocationLookup \<Rightarrow> RoutePath \<Rightarrow> RoutePath \<times> Location list option" where
  "routeEffect r locations routePath =
     (case r of
        None \<Rightarrow> ([], None)
      | Some stops \<Rightarrow>
          if length stops < 1 then ([], None)
          else
            let waypoints = extractWaypoints stops locations
            in if length waypoints < 2 then (routePath, None)
               else (routePath, Some waypoints))"

text \<open>One run of the effect followed by the end of its request, if it made one.\<close>

definition resolveRoute ::
  "Stop list option \<Rightarrow> LocationLookup \<Rightarrow> AxiosResult \<Rightarrow> RoutePath \<Rightarrow> RoutePath" where
  "resolveRoute r locations result routePath =
     (case routeEffect r locations routePath of
        (routePath', None) \<Rightarrow> routePath'
      | (routePath', Some waypoints) \<Rightarrow> fetchRoadShape waypoints result routePath')"

text \<open>
  The component over time. Each run of the effect and each end of a request is one event
  of the single-threaded event loop. A request keeps the waypoints of the run that
  started it (the closure of \<open>fetchRoadShape\<close>); the effect returns no cleanup function
  and keeps no token, so a request that ends is handled whatever has run since.
  \<open>inflight\<close> lists the waypoints of the requests in the order they were started,
  and \<open>RequestEnds i result\<close> is the end of the \<open>i\<close>-th of them. The list is never
  shortened, so that the indices stay the same; in a run of the component every request
  ends at most once.
\<close>

record MapState =
  routePath :: RoutePath
  inflight :: "Location list list"

datatype MapEvent =
    EffectRun "Stop list option" LocationLookup
  | RequestEnds nat AxiosResult

fun step :: "MapState \<Rightarrow> MapEvent \<Rightarrow> MapState" where
  "step st (EffectRun r locations) =
     (case routeEffect r locations (routePath st) of
        (path, None) \<Rightarrow> st\<lparr>routePath := path\<rparr>
      | (path, Some waypoints) \<Rightarrow>
          st\<lparr>routePath := path, inflight := inflight st @ [waypoints]\<rparr>)"
| "step st (RequestEnds i result) =
     (if i < length (inflight st)
      then st\<lparr>routePath := fetchRoadShape (inflight st ! i) result (routePath st)\<rparr>
      else st)"

definition run :: "MapState \<Rightarrow> MapEvent list \<Rightarrow> MapState" where
  "run st events = foldl step st events"

section \<open>MapComponent: the stop markers\<close>











section \<open>App: lookup, order styles and the order list\<close>

text \<open>
  \<open>createLocationLookup\<close> (lines 74 to 87) starts from the empty object, writes the three
  depot keys when a vehicle is set, and then two keys for each order in turn; a later
  write to the same key replaces the earlier one.
\<close>

definition createLocationLookup :: "Vehicle option \<Rightarrow> Order list \<Rightarrow> LocationLookup" where
  "createLocationLookup v os =
     foldl (\<lambda>lookup order.
              lookup(order_id order @ ''_pickup'' \<mapsto> pickup_location order,
                     order_id order @ ''_delivery'' \<mapsto> delivery_location order))
           (case v of
              None \<Rightarrow> Map.empty
            | Some vh \<Rightarrow> [''DEPOT'' \<mapsto> start_location vh,
                          ''DEPOT_START'' \<mapsto> start_location vh,
                          ''DEPOT_END'' \<mapsto> start_location vh])
           os"

text \<open>
  \<open>getOrderStyle\<close> (lines 89 to 113) with the theme flag it reads from the component
  state as its first argument. Only the critical style has an \<open>animation\<close> key.
\<close>

record OrderStyle =
  borderLeft :: string
  background :: string
  color :: string
  animation :: "string option"

definition getOrderStyle :: "bool \<Rightarrow> int \<Rightarrow> OrderStyle" where
  "getOrderStyle dark minsRemaining =
     (if minsRemaining \<le> 120 then
        \<lparr>borderLeft = ''6px solid #e74c3c'',
         background = (if dark then ''#342222'' else ''#fce4e4''),
         color = (if dark then ''#ecf0f1'' else ''#2c3e50''),
         animation = Some ''pulse 2s infinite''\<rparr>
      else if minsRemaining \<le> 300 then
        \<lparr>borderLeft = ''6px solid #e67e22'',
         background = (if dark then ''#34495e'' else ''#fff3e0''),
         color = (if dark then ''#ecf0f1'' else ''#2c3e50''),
         animation = None\<rparr>
      else
        \<lparr>borderLeft = ''4px solid #2ecc71'',
         background = (if dark then ''#34495e'' else ''#e8f8f5''),
         color = (if dark then ''#ecf0f1'' else ''#2c3e50''),
         animation = None\<rparr>)"

text \<open>
  The code returns a style, not a tier. The tier of a style is read from its left
  border, the one key that differs between all three styles in both themes: the red
  border is the style the code comments as critical, the orange one as high priority,
  the green one as normal.
\<close>

datatype UrgencyTier = CRITICAL | HIGH | NORMAL

definition styleTier :: "OrderStyle \<Rightarrow> UrgencyTier option" where
  "styleTier s =
     (if borderLeft s = ''6px solid #e74c3c'' then Some CRITICAL
      else if borderLeft s = ''6px solid #e67e22'' then Some HIGH
      else if borderLeft s = ''4px solid #2ecc71'' then Some NORMAL
      else None)"

text \<open>
  One card of the order list (lines 202 to 205): the minutes shown, the style (the keys
  that \<open>getOrderStyle\<close> contributes to the card; \<open>styles.card\<close> has none of them) and the
  flag that switches the critical badge on.
\<close>

record OrderCard =
  minutesLeft :: int
  cardStyle :: OrderStyle
  isCritical :: bool

definition orderCard :: "bool \<Rightarrow> Order \<Rightarrow> OrderCard" where
  "orderCard dark order =
     (let mins = (case pickup_window order of
                    Some w \<Rightarrow> window_end w
                  | None \<Rightarrow> 999)
      in \<lparr>minutesLeft = mins, cardStyle = getOrderStyle dark mins,
          isCritical = (mins \<le> 120)\<rparr>)"

section \<open>App: fetching the live orders\<close>

text \<open>
  The session state of \<open>App\<close>. \<open>distance\<close> is the number 0 at first and a string
  from \<open>toFixed\<close> later; \<open>handleFetchLive\<close> never touches it, so its type is left open.
\<close>

record 'd AppState =
  vehicle :: "Vehicle option"
  orders :: "Order list"
  route :: "Stop list option"
  distance :: 'd
  loading :: bool
  error :: "string option"
  darkMode :: bool

definition myVehicle :: Vehicle where
  "myVehicle = \<lparr>vehicle_id = ''Driver_1'', capacity = 100,
                 start_location = \<lparr>lat = 25.1825, lon = 75.8236\<rparr>\<rparr>"

text \<open>
  What \<open>axios.get\<close> of the order endpoint can deliver: a rejected promise (a network
  error, a status outside 2xx), or a response whose body \<open>response.data\<close> is
  \<^item> \<open>null\<close> or \<open>undefined\<close>;
  \<^item> a string, as it is for an empty body and for a body that is not JSON;
  \<^item> another value that is not an array (an object, a number, a boolean), given by what
    its \<open>length\<close> property reads: the number it holds, or \<open>None\<close> when there is no
    such property or it holds no number;
  \<^item> an array of orders.
\<close>

datatype OrdersResult =
    OrdersRejected
  | OrdersNull
  | OrdersString string
  | OrdersOther "real option"
  | OrdersResolved "Order list"

text \<open>
  \<open>liveOrders.sort\<close> with the comparator of lines 37 to 39. An array of fewer than two
  elements is returned without a call of the comparator; otherwise every element is
  compared at least once, and the comparator throws on an order without a pickup
  window. The sort is stable and ascending in \<open>pickup_window.end\<close>: \<open>window_end\<close> is
  the value of the number the parsed body holds, and the difference of two such numbers
  has the sign of their exact difference.
\<close>

definition sortOrders :: "Order list \<Rightarrow> js_error + Order list" where
  "sortOrders liveOrders =
     (if length liveOrders < 2 then Inr liveOrders
      else if list_ex (\<lambda>order. pickup_window order = None) liveOrders then Inl TypeError
      else Inr (sort_key (\<lambda>order. case pickup_window order of
                                      Some w \<Rightarrow> window_end w
                                    | None \<Rightarrow> 0) liveOrders))"

text \<open>
  The \<open>try\<close> block of \<open>handleFetchLive\<close> after \<open>setVehicle\<close> (lines 30 to 41), from the
  state that the setters called so far have produced. Reading \<open>length\<close> of \<open>null\<close>
  or \<open>undefined\<close> throws a TypeError. Line 33 compares the length with 0 before anything that needs an
  array, so every body whose length is the number 0 (the empty array, the empty string,
  an object with \<open>length: 0\<close>) takes the branch without orders. In the other branch
  \<open>liveOrders.sort\<close> is a function for an array only; calling it on any other body
  throws a TypeError.
\<close>

definition noOrders :: "'d AppState \<Rightarrow> 'd AppState" where
  "noOrders st =
     st\<lparr>error := Some ''No active orders found. Go to /customer to create one!'',
        orders := []\<rparr>"

definition fetchLiveBody :: "'d AppState \<Rightarrow> OrdersResult \<Rightarrow> js_error + 'd AppState" where
  "fetchLiveBody st result =
     (case result of
        OrdersRejected \<Rightarrow> Inl AxiosError
      | OrdersNull \<Rightarrow> Inl TypeError
      | OrdersString body \<Rightarrow>
          if length body = 0 then Inr (noOrders st) else Inl TypeError
      | OrdersOther len \<Rightarrow>
          if len = Some 0 then Inr (noOrders st) else Inl TypeError
      | OrdersResolved liveOrders \<Rightarrow>
          if length liveOrders = 0 then Inr (noOrders st)
          else
            (case sortOrders liveOrders of
               Inl e \<Rightarrow> Inl e
             | Inr sortedOrders \<Rightarrow> Inr (st\<lparr>orders := sortedOrders\<rparr>)))"

definition handleFetchLive :: "'d AppState \<Rightarrow> OrdersResult \<Rightarrow> 'd AppState" where
  "handleFetchLive st result =
     (let st1 = st\<lparr>loading := True, route := None, error := None\<rparr>;
          st2 = st1\<lparr>vehicle := Some myVehicle\<rparr>;
          st3 = (case fetchLiveBody st2 result of
                   Inl _ \<Rightarrow> st2\<lparr>error := Some ''Failed to fetch orders. Is backend running?''\<rparr>
                 | Inr st' \<Rightarrow> st')
      in st3\<lparr>loading := False\<rparr>)"

section \<open>The worked example\<close>

text \<open>
  The input of the end-to-end example: the driver's vehicle at the depot (the vehicle
  that \<open>handleFetchLive\<close> sets), one order, the three stops the optimizer returns for
  it, and the lookup that \<open>createLocationLookup\<close> builds from vehicle and order.
\<close>

definition exampleOrder :: Order where
  "exampleOrder =
     \<lparr>order_id = ''order1'', details = ''20 meals'', ngo_name = ''Kota Shelter'',
      pickup_location = \<lparr>lat = 25.20, lon = 75.85\<rparr>,
      delivery_location = \<lparr>lat = 25.15, lon = 75.80\<rparr>,
      pickup_window = Some \<lparr>window_start = 0, window_end = 90\<rparr>\<rparr>"

definition exampleStops :: "Stop list" where
  "exampleStops =
     [\<lparr>location_id = ''DEPOT'', type = ''start''\<rparr>,
      \<lparr>location_id = ''order1_pickup'', type = ''pickup''\<rparr>,
      \<lparr>location_id = ''order1_delivery'', type = ''delivery''\<rparr>]"

definition exampleLookup :: LocationLookup where
  "exampleLookup = createLocationLookup (Some myVehicle) [exampleOrder]"

lemmas example_defs =
  exampleOrder_def exampleStops_def exampleLookup_def myVehicle_def createLocationLookup_def

lemmas effect_defs =
  resolveRoute_def routeEffect_def fetchRoadShape_def extractWaypoints_def
  List.map_filter_simps

section \<open>Route resolution\<close>

subsection \<open>Degenerate inputs\<close>

lemma resolveRoute_no_stops:
  "resolveRoute None locations result p = []"
  "resolveRoute (Some []) locations result p = []"
  by (simp_all add: resolveRoute_def routeEffect_def)

lemma resolveRoute_few_waypoints:
  "stops \<noteq> [] \<Longrightarrow> length (extractWaypoints stops locations) < 2 \<Longrightarrow>
   resolveRoute (Some stops) locations result p = p"
  by (simp add: resolveRoute_def routeEffect_def)

text \<open>
  C1. With fewer than two waypoints the effect should leave an empty RoutePath, also for
  a stop list that is not empty. It does so for an absent or empty stop list only. Here
  a path of two points is on the map, and the effect runs on one stop that misses a
  lookup holding just the depot: one waypoint remains, the effect returns in line 89
  without a call of \<open>setRoutePath\<close>, and the old path stays.
\<close>

theorem degenerate_route_keeps_previous_path:
  "length (extractWaypoints [\<lparr>location_id = ''7_pickup'', type = ''pickup''\<rparr>]
             [''DEPOT'' \<mapsto> \<lparr>lat = 25.1825, lon = 75.8236\<rparr>]) = 1
   \<and> resolveRoute (Some [\<lparr>location_id = ''7_pickup'', type = ''pickup''\<rparr>])
        [''DEPOT'' \<mapsto> \<lparr>lat = 25.1825, lon = 75.8236\<rparr>] Rejected
        [(25.2, 75.85), (25.15, 75.8)]
      = [(25.2, 75.85), (25.15, 75.8)]"
  by (simp add: resolveRoute_def routeEffect_def extractWaypoints_def List.map_filter_simps)

subsection \<open>The straight-line fallback\<close>

text \<open>
  Every error thrown in the \<open>try\<close> block (a rejected request, a \<open>null\<close> body, a first
  route without geometry or coordinates) ends in the straight lines: one point for each
  waypoint, in the order of the waypoints.
\<close>

lemma fetchRoadShape_thrown:
  "tryRoadShape result = Inl e \<Longrightarrow>
   fetchRoadShape waypoints result p = map (\<lambda>w. (lat w, lon w)) waypoints"
  by (simp add: fetchRoadShape_def)

lemma fetchRoadShape_rejected:
  "fetchRoadShape waypoints Rejected p = map (\<lambda>w. (lat w, lon w)) waypoints"
  "fetchRoadShape waypoints (Resolved None) p = map (\<lambda>w. (lat w, lon w)) waypoints"
  by (simp_all add: fetchRoadShape_def)

lemma fetchRoadShape_no_routes:
  "fetchRoadShape waypoints (Resolved (Some (OsrmData None))) p = p"
  "fetchRoadShape waypoints (Resolved (Some (OsrmData (Some [])))) p = p"
  by (simp_all add: fetchRoadShape_def)

text \<open>
  C2. Every failure of the routing service, an empty route list among them, should set
  the straight lines between the waypoints. The thrown failures do (lemma
  \<open>fetchRoadShape_thrown\<close>). A response with an empty route list does not: the test in
  line 97 is false, nothing is thrown, and \<open>setRoutePath\<close> is not called. On the worked
  example, with four waypoints and nothing drawn yet, the path stays empty.
\<close>

theorem empty_route_list_sets_no_fallback:
  "length (extractWaypoints exampleStops exampleLookup) = 4
   \<and> resolveRoute (Some exampleStops) exampleLookup (Resolved (Some (OsrmData (Some [])))) []
      = []"
  by (simp add: effect_defs example_defs)

subsection \<open>The example, end to end\<close>

text \<open>
  C5, as the code has it. The depot is not deduplicated: the stop \<open>DEPOT\<close> resolves
  through the lookup and the depot entry is put in front as well, so the resolver works
  on four waypoints, the depot twice, and a rejected request leaves the four
  coordinates in that order, whatever was drawn before.
\<close>

theorem example_waypoints_and_fallback:
  "extractWaypoints exampleStops exampleLookup =
     [\<lparr>lat = 25.1825, lon = 75.8236\<rparr>, \<lparr>lat = 25.1825, lon = 75.8236\<rparr>,
      \<lparr>lat = 25.20, lon = 75.85\<rparr>, \<lparr>lat = 25.15, lon = 75.80\<rparr>]
   \<and> resolveRoute (Some exampleStops) exampleLookup Rejected p =
     [(25.1825, 75.8236), (25.1825, 75.8236), (25.20, 75.85), (25.15, 75.80)]"
  by (simp add: effect_defs example_defs)

text \<open>
  The example as the specification states it fails: the waypoints are not three, and
  the fallback path is not the three coordinates.
\<close>

theorem example_three_waypoints_counterexample:
  "length (extractWaypoints exampleStops exampleLookup) \<noteq> 3
   \<and> resolveRoute (Some exampleStops) exampleLookup Rejected []
      \<noteq> [(25.1825, 75.8236), (25.20, 75.85), (25.15, 75.80)]"
  by (simp add: effect_defs example_defs)

subsection \<open>Road geometry\<close>

text \<open>
  C6. A response with at least one route, whose first route carries a coordinate list,
  sets the RoutePath to that list with every \<open>(lon, lat)\<close> pair flipped to
  \<open>(lat, lon)\<close>, in the order of the service. This holds for the response handler,
  and for a whole resolution whenever at least two waypoints let the request start.
\<close>

theorem road_geometry_flipped:
  "fetchRoadShape waypoints
     (Resolved (Some (OsrmData (Some (OsrmRoute (Some (Geometry (Some cs))) # rs))))) p
     = map (\<lambda>(lon, lat). (lat, lon)) cs
   \<and> (2 \<le> length (extractWaypoints stops locations) \<longrightarrow>
        resolveRoute (Some stops) locations
          (Resolved (Some (OsrmData (Some (OsrmRoute (Some (Geometry (Some cs))) # rs))))) p
        = map (\<lambda>(lon, lat). (lat, lon)) cs)"
  by (cases stops)
     (auto simp add: effect_defs case_prod_beta split: option.splits)

text \<open>The example with a road of three points from the depot to the pickup.\<close>

theorem road_geometry_flipped_witness:
  "2 \<le> length (extractWaypoints exampleStops exampleLookup)
   \<and> resolveRoute (Some exampleStops) exampleLookup
        (Resolved (Some (OsrmData (Some
           [OsrmRoute (Some (Geometry (Some
              [(75.8236, 25.1825), (75.84, 25.19), (75.85, 25.20)])))])))) []
      = [(25.1825, 75.8236), (25.19, 75.84), (25.20, 75.85)]"
  using road_geometry_flipped
    [where stops = exampleStops and locations = exampleLookup
       and cs = "[(75.8236, 25.1825), (75.84, 25.19), (75.85, 25.20)]"
       and rs = "[]" and p = "[]" and waypoints = "[]"]
  by (simp add: extractWaypoints_def example_defs List.map_filter_simps)

subsection \<open>Requests that end out of order\<close>

text \<open>
  C3, as the code has it. Resolution A starts, resolution B starts before A has ended,
  B ends, then A ends. The end of A is handled like any other: if it sets a path (the
  straight lines after a thrown failure, or the flipped geometry of a response with a
  route), that path of A is displayed and the result of B is gone. Only a response for
  A without routes leaves the result of B on the map.
\<close>

theorem late_completion_overwrites:
  assumes "routeEffect rA lA (routePath st) = (p1, Some wA)"
      and "routeEffect rB lB p1 = (p2, Some wB)"
  shows "(\<forall>e. tryRoadShape resA = Inl e \<longrightarrow>
            routePath (run st [EffectRun rA lA, EffectRun rB lB,
                               RequestEnds (Suc (length (inflight st))) resB,
                               RequestEnds (length (inflight st)) resA])
              = map (\<lambda>w. (lat w, lon w)) wA)
       \<and> (\<forall>path. tryRoadShape resA = Inr (Some path) \<longrightarrow>
            routePath (run st [EffectRun rA lA, EffectRun rB lB,
                               RequestEnds (Suc (length (inflight st))) resB,
                               RequestEnds (length (inflight st)) resA])
              = path)
       \<and> (tryRoadShape resA = Inr None \<longrightarrow>
            routePath (run st [EffectRun rA lA, EffectRun rB lB,
                               RequestEnds (Suc (length (inflight st))) resB,
                               RequestEnds (length (inflight st)) resA])
              = routePath (run st [EffectRun rA lA, EffectRun rB lB,
                                   RequestEnds (Suc (length (inflight st))) resB]))"
  using assms by (simp add: run_def fetchRoadShape_def nth_append)

text \<open>
  An instance: A is the example route, B the delivery stop alone; the request of A is
  rejected after B has ended, and the four straight-line points of A are displayed.
\<close>

theorem late_completion_overwrites_witness:
  "routeEffect (Some exampleStops) exampleLookup (routePath \<lparr>routePath = [], inflight = []\<rparr>)
     = ([], Some [\<lparr>lat = 25.1825, lon = 75.8236\<rparr>, \<lparr>lat = 25.1825, lon = 75.8236\<rparr>,
                  \<lparr>lat = 25.20, lon = 75.85\<rparr>, \<lparr>lat = 25.15, lon = 75.80\<rparr>])
   \<and> routeEffect (Some [\<lparr>location_id = ''order1_delivery'', type = ''delivery''\<rparr>])
        exampleLookup []
     = ([], Some [\<lparr>lat = 25.1825, lon = 75.8236\<rparr>, \<lparr>lat = 25.15, lon = 75.80\<rparr>])
   \<and> tryRoadShape Rejected = Inl AxiosError
   \<and> routePath (run \<lparr>routePath = [], inflight = []\<rparr>
        [EffectRun (Some exampleStops) exampleLookup,
         EffectRun (Some [\<lparr>location_id = ''order1_delivery'', type = ''delivery''\<rparr>])
           exampleLookup,
         RequestEnds 1 (Resolved (Some (OsrmData (Some
           [OsrmRoute (Some (Geometry (Some [(75.8236, 25.1825), (75.80, 25.15)])))])))),
         RequestEnds 0 Rejected])
     = [(25.1825, 75.8236), (25.1825, 75.8236), (25.20, 75.85), (25.15, 75.80)]"
proof -
  have a: "routeEffect (Some exampleStops) exampleLookup
             (routePath \<lparr>routePath = [], inflight = []\<rparr>)
     = ([], Some [\<lparr>lat = 25.1825, lon = 75.8236\<rparr>, \<lparr>lat = 25.1825, lon = 75.8236\<rparr>,
                  \<lparr>lat = 25.20, lon = 75.85\<rparr>, \<lparr>lat = 25.15, lon = 75.80\<rparr>])"
    by (simp add: effect_defs example_defs)
  have b: "routeEffect (Some [\<lparr>location_id = ''order1_delivery'', type = ''delivery''\<rparr>])
        exampleLookup []
     = ([], Some [\<lparr>lat = 25.1825, lon = 75.8236\<rparr>, \<lparr>lat = 25.15, lon = 75.80\<rparr>])"
    by (simp add: effect_defs example_defs)
  show ?thesis
    using a b
      late_completion_overwrites [OF a b, where resA = Rejected
        and resB = "Resolved (Some (OsrmData (Some
           [OsrmRoute (Some (Geometry (Some [(75.8236, 25.1825), (75.80, 25.15)])))])))"]
    by simp
qed

text \<open>
  The suppression of stale responses as the specification states it fails on the same
  run: after B has ended its road of two points is displayed, and the end of A, the
  older request, replaces it.
\<close>

theorem stale_response_counterexample:
  "routePath (run \<lparr>routePath = [], inflight = []\<rparr>
     [EffectRun (Some exampleStops) exampleLookup,
      EffectRun (Some [\<lparr>location_id = ''order1_delivery'', type = ''delivery''\<rparr>])
        exampleLookup,
      RequestEnds 1 (Resolved (Some (OsrmData (Some
        [OsrmRoute (Some (Geometry (Some [(75.8236, 25.1825), (75.80, 25.15)])))]))))])
     = [(25.1825, 75.8236), (25.15, 75.80)]
   \<and> routePath (run \<lparr>routePath = [], inflight = []\<rparr>
     [EffectRun (Some exampleStops) exampleLookup,
      EffectRun (Some [\<lparr>location_id = ''order1_delivery'', type = ''delivery''\<rparr>])
        exampleLookup,
      RequestEnds 1 (Resolved (Some (OsrmData (Some
        [OsrmRoute (Some (Geometry (Some [(75.8236, 25.1825), (75.80, 25.15)])))])))),
      RequestEnds 0 Rejected])
     \<noteq> [(25.1825, 75.8236), (25.15, 75.80)]"
  by (simp add: run_def effect_defs example_defs)

section \<open>Stop markers\<close>







section \<open>Order urgency\<close>

text \<open>
  C4. For every integer number of minutes and in both themes, the style returned is the
  critical one exactly up to 120 minutes (0 and the negative numbers included), the
  high-priority one exactly from 121 to 300, and the normal one exactly above 300. So
  120 is critical, 121 and 300 are high, 301 is normal, and, the tier being a function
  of the minutes that is never undefined, the three bands partition the integers.
\<close>

theorem urgency_bands:
  "(styleTier (getOrderStyle dark m) = Some CRITICAL \<longleftrightarrow> m \<le> 120)
   \<and> (styleTier (getOrderStyle dark m) = Some HIGH \<longleftrightarrow> 120 < m \<and> m \<le> 300)
   \<and> (styleTier (getOrderStyle dark m) = Some NORMAL \<longleftrightarrow> 300 < m)
   \<and> styleTier (getOrderStyle dark 120) = Some CRITICAL
   \<and> styleTier (getOrderStyle dark 121) = Some HIGH
   \<and> styleTier (getOrderStyle dark 300) = Some HIGH
   \<and> styleTier (getOrderStyle dark 301) = Some NORMAL
   \<and> styleTier (getOrderStyle dark 0) = Some CRITICAL
   \<and> styleTier (getOrderStyle dark (- 1)) = Some CRITICAL"
  by (simp add: styleTier_def getOrderStyle_def)

text \<open>
  C9. An order without a pickup window is shown with 999 minutes, in the normal style,
  and without the critical badge.
\<close>

theorem missing_window_is_normal:
  "pickup_window order = None \<Longrightarrow>
     minutesLeft (orderCard dark order) = 999
   \<and> styleTier (cardStyle (orderCard dark order)) = Some NORMAL
   \<and> \<not> isCritical (orderCard dark order)"
  by (simp add: orderCard_def styleTier_def getOrderStyle_def)

text \<open>The example order with its pickup window taken away, in the dark theme.\<close>

theorem missing_window_is_normal_witness:
  "pickup_window (exampleOrder\<lparr>pickup_window := None\<rparr>) = None
   \<and> minutesLeft (orderCard True (exampleOrder\<lparr>pickup_window := None\<rparr>)) = 999
   \<and> styleTier (cardStyle (orderCard True (exampleOrder\<lparr>pickup_window := None\<rparr>)))
       = Some NORMAL
   \<and> \<not> isCritical (orderCard True (exampleOrder\<lparr>pickup_window := None\<rparr>))"
  using missing_window_is_normal [of "exampleOrder\<lparr>pickup_window := None\<rparr>" True]
  by simp

section \<open>The location lookup\<close>

lemma last_differs: "last xs \<noteq> last ys \<Longrightarrow> xs \<noteq> ys"
  by blast

lemma pickup_key_not_depot:
  "i @ ''_pickup'' \<noteq> ''DEPOT''"
  "i @ ''_pickup'' \<noteq> ''DEPOT_START''"
  "i @ ''_pickup'' \<noteq> ''DEPOT_END''"
  by (rule last_differs, simp)+

lemma delivery_key_not_depot:
  "i @ ''_delivery'' \<noteq> ''DEPOT''"
  "i @ ''_delivery'' \<noteq> ''DEPOT_START''"
  "i @ ''_delivery'' \<noteq> ''DEPOT_END''"
  by (rule last_differs, simp)+

lemma foldl_order_keys_other:
  "\<forall>order \<in> set os. k \<noteq> order_id order @ ''_pickup'' \<and> k \<noteq> order_id order @ ''_delivery'' \<Longrightarrow>
   foldl (\<lambda>lookup order.
            lookup(order_id order @ ''_pickup'' \<mapsto> pickup_location order,
                   order_id order @ ''_delivery'' \<mapsto> delivery_location order)) m os k = m k"
  by (induction os arbitrary: m) simp_all

lemma foldl_order_keys_dom:
  "dom (foldl (\<lambda>lookup order.
                 lookup(order_id order @ ''_pickup'' \<mapsto> pickup_location order,
                        order_id order @ ''_delivery'' \<mapsto> delivery_location order)) m os)
   = dom m \<union> (\<Union>order \<in> set os. {order_id order @ ''_pickup'', order_id order @ ''_delivery''})"
  by (induction os arbitrary: m) auto

text \<open>
  C10. Whenever a vehicle is set, the lookup maps \<open>DEPOT\<close>, \<open>DEPOT_START\<close> and
  \<open>DEPOT_END\<close> all to the start location of the vehicle (no order key can replace
  them, whatever the order ids are), and its keys are exactly the depot keys together
  with \<open>id_pickup\<close> and \<open>id_delivery\<close> for every order id; without a vehicle the
  keys are those of the orders alone.
\<close>

theorem lookup_depot_and_keys:
  "(\<forall>vh. v = Some vh \<longrightarrow>
      createLocationLookup v os ''DEPOT'' = Some (start_location vh)
    \<and> createLocationLookup v os ''DEPOT_START'' = Some (start_location vh)
    \<and> createLocationLookup v os ''DEPOT_END'' = Some (start_location vh))
   \<and> dom (createLocationLookup v os) =
       (case v of None \<Rightarrow> {} | Some vh \<Rightarrow> {''DEPOT'', ''DEPOT_START'', ''DEPOT_END''})
       \<union> (\<Union>order \<in> set os. {order_id order @ ''_pickup'', order_id order @ ''_delivery''})"
proof -
  have d: "\<forall>order \<in> set os. ''DEPOT'' \<noteq> order_id order @ ''_pickup''
                          \<and> ''DEPOT'' \<noteq> order_id order @ ''_delivery''"
    using pickup_key_not_depot(1) delivery_key_not_depot(1) by metis
  have ds: "\<forall>order \<in> set os. ''DEPOT_START'' \<noteq> order_id order @ ''_pickup''
                           \<and> ''DEPOT_START'' \<noteq> order_id order @ ''_delivery''"
    using pickup_key_not_depot(2) delivery_key_not_depot(2) by metis
  have de: "\<forall>order \<in> set os. ''DEPOT_END'' \<noteq> order_id order @ ''_pickup''
                           \<and> ''DEPOT_END'' \<noteq> order_id order @ ''_delivery''"
    using pickup_key_not_depot(3) delivery_key_not_depot(3) by metis
  have keys: "dom (createLocationLookup v os) =
       (case v of None \<Rightarrow> {} | Some vh \<Rightarrow> {''DEPOT'', ''DEPOT_START'', ''DEPOT_END''})
       \<union> (\<Union>order \<in> set os. {order_id order @ ''_pickup'', order_id order @ ''_delivery''})"
    unfolding createLocationLookup_def foldl_order_keys_dom
    by (cases v) auto
  show ?thesis
    using keys
    by (auto simp: createLocationLookup_def foldl_order_keys_other[OF d]
          foldl_order_keys_other[OF ds] foldl_order_keys_other[OF de])
qed

text \<open>The lookup of the example: the three depot keys and the two keys of the order.\<close>

theorem lookup_depot_and_keys_witness:
  "Some myVehicle = Some myVehicle
   \<and> createLocationLookup (Some myVehicle) [exampleOrder] ''DEPOT''
       = Some \<lparr>lat = 25.1825, lon = 75.8236\<rparr>
   \<and> createLocationLookup (Some myVehicle) [exampleOrder] ''DEPOT_START''
       = Some \<lparr>lat = 25.1825, lon = 75.8236\<rparr>
   \<and> createLocationLookup (Some myVehicle) [exampleOrder] ''DEPOT_END''
       = Some \<lparr>lat = 25.1825, lon = 75.8236\<rparr>
   \<and> dom (createLocationLookup (Some myVehicle) [exampleOrder])
       = {''DEPOT'', ''DEPOT_START'', ''DEPOT_END'', ''order1_pickup'', ''order1_delivery''}"
  using lookup_depot_and_keys [of "Some myVehicle" "[exampleOrder]"]
  by (auto simp add: myVehicle_def exampleOrder_def)

section \<open>Failure of the order fetch\<close>

text \<open>
  A body whose length is the number 0 is no failure for the code, array or not: the
  action ends with the message for no orders and with an empty order list.
\<close>

lemma fetch_zero_length_body:
  "handleFetchLive st (OrdersString []) =
     st\<lparr>loading := False, route := None, vehicle := Some myVehicle,
        error := Some ''No active orders found. Go to /customer to create one!'',
        orders := []\<rparr>"
  "handleFetchLive st (OrdersOther (Some 0)) =
     st\<lparr>loading := False, route := None, vehicle := Some myVehicle,
        error := Some ''No active orders found. Go to /customer to create one!'',
        orders := []\<rparr>"
  "handleFetchLive st (OrdersResolved []) =
     st\<lparr>loading := False, route := None, vehicle := Some myVehicle,
        error := Some ''No active orders found. Go to /customer to create one!'',
        orders := []\<rparr>"
  by (simp_all add: handleFetchLive_def fetchLiveBody_def noOrders_def)

text \<open>
  The comparator of the sort throws on an array of two or more orders one of which has
  no pickup window, and the action ends as for a failed fetch.
\<close>

lemma fetch_comparator_throws:
  "2 \<le> length os \<Longrightarrow> list_ex (\<lambda>order. pickup_window order = None) os \<Longrightarrow>
   handleFetchLive st (OrdersResolved os) =
     st\<lparr>loading := False, route := None, vehicle := Some myVehicle,
        error := Some ''Failed to fetch orders. Is backend running?''\<rparr>"
  by (cases os) (auto simp add: handleFetchLive_def fetchLiveBody_def sortOrders_def)

text \<open>
  C8, as the code has it. When the fetch of the orders fails (the request is rejected,
  or the body is \<open>null\<close>, or it is not an array and its length does not read as the
  number 0), the action ends with the message
  \<open>Failed to fetch orders. Is backend running?\<close> and with \<open>loading\<close> off; orders and
  distance are as they were before the action, but the route has been reset to \<open>null\<close>
  and the vehicle set to the driver's vehicle, both before the request was made.
\<close>

theorem fetch_failure_state:
  assumes "result = OrdersRejected \<or> result = OrdersNull
           \<or> (\<exists>body. result = OrdersString body \<and> body \<noteq> [])
           \<or> (\<exists>len. result = OrdersOther len \<and> len \<noteq> Some 0)"
  shows "handleFetchLive st result =
           st\<lparr>loading := False, route := None, vehicle := Some myVehicle,
              error := Some ''Failed to fetch orders. Is backend running?''\<rparr>
         \<and> orders (handleFetchLive st result) = orders st
         \<and> distance (handleFetchLive st result) = distance st"
  using assms by (auto simp add: handleFetchLive_def fetchLiveBody_def)

text \<open>
  A session that shows the optimized route of the example, and a fetch answered with a
  page of text instead of an array.
\<close>

theorem fetch_failure_state_witness:
  "(OrdersString ''<!doctype html>'' = OrdersRejected
      \<or> OrdersString ''<!doctype html>'' = OrdersNull
      \<or> (\<exists>body. OrdersString ''<!doctype html>'' = OrdersString body \<and> body \<noteq> [])
      \<or> (\<exists>len. OrdersString ''<!doctype html>'' = OrdersOther len \<and> len \<noteq> Some 0))
   \<and> handleFetchLive
        \<lparr>vehicle = Some myVehicle, orders = [exampleOrder], route = Some exampleStops,
         distance = ''12.34'', loading = False, error = None, darkMode = True\<rparr>
        (OrdersString ''<!doctype html>'')
     = \<lparr>vehicle = Some myVehicle, orders = [exampleOrder], route = None,
        distance = ''12.34'', loading = False,
        error = Some ''Failed to fetch orders. Is backend running?'', darkMode = True\<rparr>"
  using fetch_failure_state
    [where result = "OrdersString ''<!doctype html>''"
       and st = "\<lparr>vehicle = Some myVehicle, orders = [exampleOrder],
                   route = Some exampleStops, distance = ''12.34'', loading = False,
                   error = None, darkMode = True\<rparr>"]
  by simp

text \<open>
  The prior state is not left unchanged: a session that shows the optimized route of the
  example loses it when a later fetch fails.
\<close>

theorem fetch_failure_counterexample:
  "route (handleFetchLive
            \<lparr>vehicle = Some myVehicle, orders = [exampleOrder], route = Some exampleStops,
             distance = ''12.34'', loading = False, error = None, darkMode = True\<rparr>
            OrdersRejected)
   \<noteq> route \<lparr>vehicle = Some myVehicle, orders = [exampleOrder], route = Some exampleStops,
             distance = ''12.34'', loading = False, error = None, darkMode = True\<rparr>"
  by (simp add: handleFetchLive_def fetchLiveBody_def)

end
